theory Spec2Isabelle
  imports Complex_Main "HOL-Library.Sublist"
begin

section \<open>Python values\<close>

text \<open>
  The service handles what \<^verbatim>\<open>json.loads\<close> returns and what pydantic accepts as
  \<^verbatim>\<open>List[Dict[str, Any]]\<close>: None, bool, int, float, str, list and dict. A Python
  \<^verbatim>\<open>str\<close> is modelled by its UTF-8 bytes, so every JSON delimiter, marker and key
  of the source is the same sequence of characters in the model. A finite float is the
  rational number it denotes; the sign of zero is not kept, and the model's \<open>NaN\<close> is
  equal to itself. A dict is an association list in insertion order; the dicts of the
  program have pairwise different keys.
\<close>

datatype pyfloat = Finite rat | PosInf | NegInf | NaN

datatype pyval =
    PNone
  | PBool bool
  | PInt int
  | PFloat pyfloat
  | PStr string
  | PList "pyval list"
  | PDict "(string \<times> pyval) list"

type_synonym pydict = "(string \<times> pyval) list"

text \<open>The exceptions that the modelled code can raise; \<open>InvocationError\<close> stands for
  whatever the model client raises, with its message.\<close>

datatype py_error =
    JSONDecodeError
  | AttributeError
  | ValueError
  | OverflowError
  | IndexError
  | InvocationError string

text \<open>\<^verbatim>\<open>bool(v)\<close>, the truth value that \<^verbatim>\<open>or\<close> and \<^verbatim>\<open>if\<close> test.\<close>

fun truthy :: "pyval \<Rightarrow> bool" where
  "truthy PNone = False"
| "truthy (PBool b) = b"
| "truthy (PInt n) = (n \<noteq> 0)"
| "truthy (PFloat f) = (f \<noteq> Finite 0)"
| "truthy (PStr s) = (s \<noteq> [])"
| "truthy (PList xs) = (xs \<noteq> [])"
| "truthy (PDict d) = (d \<noteq> [])"

text \<open>\<^verbatim>\<open>a or b\<close> yields \<^verbatim>\<open>a\<close> when it is truthy and \<^verbatim>\<open>b\<close> otherwise.\<close>

definition py_or :: "pyval \<Rightarrow> pyval \<Rightarrow> pyval" where
  "py_or a b = (if truthy a then a else b)"

text \<open>\<^verbatim>\<open>d[k] = v\<close>: an existing key keeps its position, a new key goes last.\<close>

fun dict_set :: "pydict \<Rightarrow> string \<Rightarrow> pyval \<Rightarrow> pydict" where
  "dict_set [] k v = [(k, v)]"
| "dict_set ((k', v') # d) k v =
     (if k' = k then (k', v) # d else (k', v') # dict_set d k v)"

text \<open>\<^verbatim>\<open>d.get(k, default)\<close>; \<^verbatim>\<open>d.get(k)\<close> has the default \<^verbatim>\<open>None\<close>.\<close>

definition dict_get :: "pydict \<Rightarrow> string \<Rightarrow> pyval \<Rightarrow> pyval" where
  "dict_get d k dflt = (case map_of d k of None \<Rightarrow> dflt | Some v \<Rightarrow> v)"


section \<open>Strings\<close>

definition is_digit :: "char \<Rightarrow> bool" where
  "is_digit c = ((48::nat) \<le> of_char c \<and> of_char c \<le> (57::nat))"

definition digit_val :: "char \<Rightarrow> nat" where
  "digit_val c = of_char c - 48"

text \<open>The value of a string of decimal digits.\<close>

definition digits_val :: "string \<Rightarrow> nat" where
  "digits_val ds = foldl (\<lambda>n c. 10 * n + digit_val c) 0 ds"

text \<open>
  \<^verbatim>\<open>str.isspace\<close> on the ASCII range: tab, line feed, vertical tab, form feed,
  carriage return, the four separators 0x1C to 0x1F, and space. The white space that
  Unicode has beyond ASCII is not modelled.
\<close>

definition py_isspace :: "char \<Rightarrow> bool" where
  "py_isspace c = (let n = (of_char c :: nat) in (9 \<le> n \<and> n \<le> 13) \<or> (28 \<le> n \<and> n \<le> 32))"

definition py_strip :: "string \<Rightarrow> string" where
  "py_strip s = rev (dropWhile py_isspace (rev (dropWhile py_isspace s)))"

text \<open>\<^verbatim>\<open>str.lower\<close> on the ASCII range.\<close>

definition lower_char :: "char \<Rightarrow> char" where
  "lower_char c = (let n = (of_char c :: nat) in if 65 \<le> n \<and> n \<le> 90 then char_of (n + 32) else c)"

definition py_lower :: "string \<Rightarrow> string" where
  "py_lower s = map lower_char s"

text \<open>\<^verbatim>\<open>sub in s\<close> and \<^verbatim>\<open>s.find(sub)\<close> (\<open>None\<close> for \<^verbatim>\<open>-1\<close>).\<close>

fun py_find :: "string \<Rightarrow> string \<Rightarrow> nat option" where
  "py_find sub [] = (if sub = [] then Some 0 else None)"
| "py_find sub (c # cs) =
     (if prefix sub (c # cs) then Some 0 else map_option Suc (py_find sub cs))"

definition py_contains :: "string \<Rightarrow> string \<Rightarrow> bool" where
  "py_contains sub s = (py_find sub s \<noteq> None)"

text \<open>
  \<^verbatim>\<open>s.split(sep)\<close> for a non-empty separator: the pieces between the occurrences of
  \<^verbatim>\<open>sep\<close>, found from the left without overlap. (Python raises ValueError for
  an empty separator; both separators of the source are non-empty literals.)
\<close>

function py_split :: "string \<Rightarrow> string \<Rightarrow> string list" where
  "py_split sep s =
     (if sep = [] then [s]
      else (case py_find sep s of
              None \<Rightarrow> [s]
            | Some i \<Rightarrow> take i s # py_split sep (drop (i + length sep) s)))"
  by pat_completeness auto

lemma py_find_bound: "py_find sub s = Some i \<Longrightarrow> i + length sub \<le> length s"
proof (induction s arbitrary: i)
  case Nil
  then show ?case by (simp split: if_splits)
next
  case (Cons c cs)
  show ?case
  proof (cases "prefix sub (c # cs)")
    case True
    with Cons.prems show ?thesis by (auto dest: prefix_length_le)
  next
    case False
    with Cons.prems obtain j where "py_find sub cs = Some j" "i = Suc j" by auto
    with Cons.IH show ?thesis by fastforce
  qed
qed

termination py_split
proof (relation "measure (\<lambda>(sep, s). length s)")
  show "wf (measure (\<lambda>(sep, s). length s))" by simp
next
  fix sep s :: string and i :: nat
  assume "sep \<noteq> []" and "py_find sep s = Some i"
  then have "i + length sep \<le> length s" and "0 < length sep"
    by (simp_all add: py_find_bound)
  then have "length s - (i + length sep) < length s"
    by arith
  then show "((sep, drop (i + length sep) s), (sep, s)) \<in> measure (\<lambda>(sep, s). length s)"
    by simp
qed

declare py_split.simps [simp del]

section \<open>Numbers\<close>

text \<open>
  \<^verbatim>\<open>int(s)\<close> for a string: surrounding white space, an optional sign, then decimal
  digits in which single underscores may separate digits. \<open>None\<close> is ValueError.
  The white space that \<^verbatim>\<open>int\<close> skips in the ASCII range is tab to carriage
  return and space, without the separators 0x1C to 0x1F that \<^verbatim>\<open>strip\<close> removes.
  (The interpreter's limit on the number of digits, 4300 by default, is not modelled.)
\<close>

definition int_isspace :: "char \<Rightarrow> bool" where
  "int_isspace c = (let n = (of_char c :: nat) in (9 \<le> n \<and> n \<le> 13) \<or> n = 32)"

fun digits_us :: "string \<Rightarrow> bool" where
  "digits_us [] = False"
| "digits_us [c] = is_digit c"
| "digits_us (c # d # cs) =
     (is_digit c \<and> (if d = CHR ''_'' then digits_us cs else digits_us (d # cs)))"

definition int_of_str :: "string \<Rightarrow> int option" where
  "int_of_str s =
     (let t = rev (dropWhile int_isspace (rev (dropWhile int_isspace s)));
          neg = (t \<noteq> [] \<and> hd t = CHR ''-'');
          body = (if t \<noteq> [] \<and> (hd t = CHR ''-'' \<or> hd t = CHR ''+'') then tl t else t)
      in if digits_us body
         then Some ((if neg then - 1 else 1) * int (digits_val (filter (\<lambda>c. c \<noteq> CHR ''_'') body)))
         else None)"

text \<open>\<^verbatim>\<open>int(x)\<close> for a float truncates towards zero; it raises ValueError on NaN and
  OverflowError on an infinity.\<close>

definition trunc_rat :: "rat \<Rightarrow> int" where
  "trunc_rat q = (if 0 \<le> q then \<lfloor>q\<rfloor> else - \<lfloor>- q\<rfloor>)"

fun int_of_float :: "pyfloat \<Rightarrow> py_error + int" where
  "int_of_float (Finite q) = Inr (trunc_rat q)"
| "int_of_float NaN = Inl ValueError"
| "int_of_float PosInf = Inl OverflowError"
| "int_of_float NegInf = Inl OverflowError"

text \<open>
  \<^verbatim>\<open>float(s)\<close> of a decimal literal is the binary64 number nearest to the decimal,
  ties to the even significand, and an infinity beyond the largest finite number.
\<close>

fun bit_length :: "nat \<Rightarrow> nat" where
  "bit_length n = (if n = 0 then 0 else Suc (bit_length (n div 2)))"

declare bit_length.simps [simp del]

definition pow2 :: "int \<Rightarrow> rat" where
  "pow2 e = (if 0 \<le> e then 2 ^ nat e else 1 / 2 ^ nat (- e))"

definition ilog2 :: "rat \<Rightarrow> int" where
  "ilog2 a =
     (let (p, q) = quotient_of a;
          e0 = int (bit_length (nat p)) - int (bit_length (nat q))
      in if pow2 e0 \<le> a then e0 else e0 - 1)"

definition round_half_even :: "rat \<Rightarrow> int" where
  "round_half_even x =
     (let f = \<lfloor>x\<rfloor>; d = x - of_int f
      in if d < 1 / 2 then f else if 1 / 2 < d then f + 1 else if even f then f else f + 1)"

definition float_of_rat :: "rat \<Rightarrow> pyfloat" where
  "float_of_rat q =
     (if q = 0 then Finite 0
      else let a = \<bar>q\<bar>;
               e = max (ilog2 a) (- 1022);
               u = pow2 (e - 52);
               r = of_int (round_half_even (a / u)) * u
           in if pow2 1024 \<le> r then (if q < 0 then NegInf else PosInf)
              else Finite (if q < 0 then - r else r))"

section \<open>The JSON decoder\<close>

text \<open>
  \<^verbatim>\<open>json.loads\<close> of the standard library with its default (strict) decoder, on a
  \<^verbatim>\<open>str\<close>. The decoder reads one value between optional white space (space, tab,
  line feed, carriage return) and fails on anything left over. Since white space may
  stand between any two lexical elements and the first character decides which element
  comes next, the model first cuts the text into tokens and then runs the decoder's
  grammar over them with an explicit stack. \<open>None\<close> is JSONDecodeError. The
  interpreter's recursion limit is not modelled.
\<close>

definition hex_val :: "char \<Rightarrow> nat option" where
  "hex_val c =
     (let n = (of_char c :: nat)
      in if 48 \<le> n \<and> n \<le> 57 then Some (n - 48)
         else if 65 \<le> n \<and> n \<le> 70 then Some (n - 55)
         else if 97 \<le> n \<and> n \<le> 102 then Some (n - 87)
         else None)"

text \<open>The four hexadecimal digits of a \<^verbatim>\<open>\uXXXX\<close> escape.\<close>

definition hex4 :: "string \<Rightarrow> nat option" where
  "hex4 s =
     (case map hex_val (take 4 s) of
        [Some a, Some b, Some c, Some d] \<Rightarrow> Some (((a * 16 + b) * 16 + c) * 16 + d)
      | _ \<Rightarrow> None)"

definition utf8_encode :: "nat \<Rightarrow> string" where
  "utf8_encode n =
     (if n < 0x80 then [char_of n]
      else if n < 0x800 then [char_of (0xC0 + n div 64), char_of (0x80 + n mod 64)]
      else if n < 0x10000 then
        [char_of (0xE0 + n div 4096), char_of (0x80 + (n div 64) mod 64), char_of (0x80 + n mod 64)]
      else
        [char_of (0xF0 + n div 262144), char_of (0x80 + (n div 4096) mod 64),
         char_of (0x80 + (n div 64) mod 64), char_of (0x80 + n mod 64)])"

text \<open>The character after a backslash, other than \<^verbatim>\<open>u\<close>.\<close>

definition unescape :: "char \<Rightarrow> char option" where
  "unescape e =
     (if e = CHR 0x22 then Some (CHR 0x22)
      else if e = CHR 0x5C then Some (CHR 0x5C)
      else if e = CHR ''/'' then Some (CHR ''/'')
      else if e = CHR ''b'' then Some (CHR 0x08)
      else if e = CHR ''f'' then Some (CHR 0x0C)
      else if e = CHR ''n'' then Some (CHR 0x0A)
      else if e = CHR ''r'' then Some (CHR 0x0D)
      else if e = CHR ''t'' then Some (CHR 0x09)
      else None)"

definition cons_str :: "string \<Rightarrow> (string \<times> string) option \<Rightarrow> (string \<times> string) option" where
  "cons_str p r = (case r of None \<Rightarrow> None | Some (s, rest) \<Rightarrow> Some (p @ s, rest))"

text \<open>
  The body of a string, from the character after the opening quote: the decoded
  content and the text after the closing quote. A control character below 0x20 is
  refused; a high surrogate escape followed by a low surrogate escape is one code point.
\<close>

function lex_string :: "string \<Rightarrow> (string \<times> string) option" where
  "lex_string [] = None"
| "lex_string (c # cs) =
     (if c = CHR 0x22 then Some ([], cs)
      else if c = CHR 0x5C then
        (case cs of
           [] \<Rightarrow> None
         | e # r \<Rightarrow>
            if e = CHR ''u'' then
              (case hex4 r of
                 None \<Rightarrow> None
               | Some u \<Rightarrow>
                  if 0xD800 \<le> u \<and> u \<le> 0xDBFF \<and> take 2 (drop 4 r) = [CHR 0x5C, CHR ''u''] then
                    (case hex4 (drop 6 r) of
                       None \<Rightarrow> None
                     | Some u2 \<Rightarrow>
                        if 0xDC00 \<le> u2 \<and> u2 \<le> 0xDFFF
                        then cons_str (utf8_encode (0x10000 + (u - 0xD800) * 1024 + (u2 - 0xDC00)))
                               (lex_string (drop 10 r))
                        else cons_str (utf8_encode u) (lex_string (drop 4 r)))
                  else cons_str (utf8_encode u) (lex_string (drop 4 r)))
            else (case unescape e of
                    None \<Rightarrow> None
                  | Some x \<Rightarrow> cons_str [x] (lex_string r)))
      else if (of_char c :: nat) < 32 then None
      else cons_str [c] (lex_string cs))"
  by pat_completeness auto
termination
  by (relation "measure length") auto

declare lex_string.simps [simp del]

text \<open>
  A number, by the decoder's pattern \<^verbatim>\<open>(-?(?:0|[1-9]\d*))(\.\d+)?([eE][-+]?\d+)?\<close>:
  the longest match at the start of the text, and the text after it. Without fraction
  and exponent the value is an \<^verbatim>\<open>int\<close>, otherwise a \<^verbatim>\<open>float\<close>.
\<close>

definition pow10 :: "int \<Rightarrow> rat" where
  "pow10 e = (if 0 \<le> e then 10 ^ nat e else 1 / 10 ^ nat (- e))"

text \<open>The digits matched by \<^verbatim>\<open>0|[1-9]\d*\<close> at the start of a text.\<close>

definition num_int :: "string \<Rightarrow> string" where
  "num_int s =
     (let ds = takeWhile is_digit s
      in if ds \<noteq> [] \<and> hd ds = CHR ''0'' then [CHR ''0''] else ds)"

text \<open>The digits of \<^verbatim>\<open>\.\d+\<close> at the start of a text, empty when it does not match.\<close>

definition num_frac :: "string \<Rightarrow> string" where
  "num_frac s = (if s \<noteq> [] \<and> hd s = CHR ''.'' then takeWhile is_digit (tl s) else [])"

text \<open>The text matched by \<^verbatim>\<open>[eE][-+]?\d+\<close> at the start of a text, empty when it
  does not match, and the exponent that it denotes.\<close>

definition num_exp :: "string \<Rightarrow> string" where
  "num_exp s =
     (if s \<noteq> [] \<and> (hd s = CHR ''e'' \<or> hd s = CHR ''E'') then
        (let r = tl s;
             sg = (if r \<noteq> [] \<and> (hd r = CHR ''-'' \<or> hd r = CHR ''+'') then [hd r] else []);
             ds = takeWhile is_digit (drop (length sg) r)
         in if ds = [] then [] else hd s # sg @ ds)
      else [])"

definition exp_val :: "string \<Rightarrow> int" where
  "exp_val ex =
     (let r = tl ex
      in if r \<noteq> [] \<and> hd r = CHR ''-'' then - int (digits_val (tl r))
         else if r \<noteq> [] \<and> hd r = CHR ''+'' then int (digits_val (tl r))
         else int (digits_val r))"

definition lex_number :: "string \<Rightarrow> (pyval \<times> string) option" where
  "lex_number s =
     (let sg = (if s \<noteq> [] \<and> hd s = CHR ''-'' then [CHR ''-''] else []);
          ip = num_int (drop (length sg) s)
      in if ip = [] then None
         else
           let fr = num_frac (drop (length sg + length ip) s);
               frl = (if fr = [] then 0 else Suc (length fr));
               ex = num_exp (drop (length sg + length ip + frl) s);
               n = length sg + length ip + frl + length ex;
               sgn = (if sg = [] then 1 else - 1)
           in Some (if fr = [] \<and> ex = [] then PInt (sgn * int (digits_val ip))
                    else PFloat (float_of_rat
                           (of_int sgn * (of_nat (digits_val (ip @ fr)) / 10 ^ length fr)
                              * pow10 (exp_val ex))),
                    drop n s))"

datatype token = TLBrace | TRBrace | TLBrack | TRBrack | TComma | TColon | TValue pyval

definition cons_tok :: "token \<Rightarrow> token list option \<Rightarrow> token list option" where
  "cons_tok t r = map_option ((#) t) r"

lemma cons_str_length:
  assumes "cons_str p r = Some (x, rest)"
  obtains y where "r = Some (y, rest)"
  using assms by (auto simp: cons_str_def split: option.splits)

lemma lex_string_length: "lex_string s = Some (x, r) \<Longrightarrow> length r < length s"
proof (induction "length s" arbitrary: s x r rule: less_induct)
  case less
  have key: "length r' < length s"
    if "lex_string t = Some (y, r')" "length t < length s" for t y r'
    using less.hyps [OF that(2) that(1)] that(2) by simp
  show ?case
  proof (cases s)
    case Nil
    with less.prems show ?thesis by (simp add: lex_string.simps)
  next
    case (Cons c cs)
    from less.prems show ?thesis
      unfolding Cons
      apply (subst (asm) lex_string.simps)
      apply (auto split: if_splits list.splits option.splits elim!: cons_str_length)
      apply (auto dest!: key simp: Cons)
      done
  qed
qed

lemma num_int_nonempty: "num_int t \<noteq> [] \<Longrightarrow> t \<noteq> []"
  by (auto simp: num_int_def)

lemma lex_number_length:
  assumes "lex_number s = Some (v, r)"
  shows "length r < length s"
proof -
  define sg where "sg = (if s \<noteq> [] \<and> hd s = CHR ''-'' then [CHR ''-''] else [])"
  define ip where "ip = num_int (drop (length sg) s)"
  define fr where "fr = num_frac (drop (length sg + length ip) s)"
  define frl where "frl = (if fr = [] then 0 else Suc (length fr))"
  define ex where "ex = num_exp (drop (length sg + length ip + frl) s)"
  have "lex_number s = None \<or> (ip \<noteq> [] \<and> (\<exists>w. lex_number s = Some (w, drop (length sg + length ip + frl + length ex) s)))"
    unfolding lex_number_def Let_def sg_def [symmetric] ip_def [symmetric] fr_def [symmetric]
      frl_def [symmetric] ex_def [symmetric]
    by simp
  with assms have ip: "ip \<noteq> []" and r: "r = drop (length sg + length ip + frl + length ex) s"
    by auto
  from ip have "s \<noteq> []" unfolding ip_def by (auto dest: num_int_nonempty)
  moreover from ip have "0 < length ip" by simp
  ultimately show ?thesis unfolding r by (cases s) auto
qed

text \<open>The tokens of a text; \<open>None\<close> when some character starts no lexical element.\<close>

function lex :: "string \<Rightarrow> token list option" where
  "lex [] = Some []"
| "lex (c # cs) =
     (if c = CHR '' '' \<or> c = CHR 0x09 \<or> c = CHR 0x0A \<or> c = CHR 0x0D then lex cs
      else if c = CHR ''{'' then cons_tok TLBrace (lex cs)
      else if c = CHR ''}'' then cons_tok TRBrace (lex cs)
      else if c = CHR ''['' then cons_tok TLBrack (lex cs)
      else if c = CHR '']'' then cons_tok TRBrack (lex cs)
      else if c = CHR '','' then cons_tok TComma (lex cs)
      else if c = CHR '':'' then cons_tok TColon (lex cs)
      else if c = CHR 0x22 then
        (case lex_string cs of
           None \<Rightarrow> None
         | Some (x, r) \<Rightarrow> cons_tok (TValue (PStr x)) (lex r))
      else if prefix ''null'' (c # cs) then cons_tok (TValue PNone) (lex (drop 3 cs))
      else if prefix ''true'' (c # cs) then cons_tok (TValue (PBool True)) (lex (drop 3 cs))
      else if prefix ''false'' (c # cs) then cons_tok (TValue (PBool False)) (lex (drop 4 cs))
      else (case lex_number (c # cs) of
              Some (v, r) \<Rightarrow> cons_tok (TValue v) (lex r)
            | None \<Rightarrow>
               if prefix ''NaN'' (c # cs) then cons_tok (TValue (PFloat NaN)) (lex (drop 2 cs))
               else if prefix ''Infinity'' (c # cs) then cons_tok (TValue (PFloat PosInf)) (lex (drop 7 cs))
               else if prefix ''-Infinity'' (c # cs) then cons_tok (TValue (PFloat NegInf)) (lex (drop 8 cs))
               else None))"
  by pat_completeness auto
termination
  by (relation "measure length") (auto dest: lex_string_length lex_number_length)

declare lex.simps [simp del]

text \<open>
  The grammar over the tokens. A frame of the stack is an array with the elements read
  so far, or an object with its pairs and the key that waits for its value. The mode
  says what may come next.
\<close>

datatype frame = FArr "pyval list" | FObj pydict "string option"

datatype mode =
    ExpValue
  | ExpValueOrEnd
  | ExpKeyOrEnd
  | ExpKey
  | ExpColon
  | ExpCommaOrEnd
  | Done pyval

text \<open>A value is complete: it is the result, the next element of the array on top,
  or the value of the waiting key of the object on top.\<close>

fun push_value :: "pyval \<Rightarrow> frame list \<Rightarrow> (mode \<times> frame list) option" where
  "push_value v [] = Some (Done v, [])"
| "push_value v (FArr es # st) = Some (ExpCommaOrEnd, FArr (es @ [v]) # st)"
| "push_value v (FObj d (Some k) # st) = Some (ExpCommaOrEnd, FObj (dict_set d k v) None # st)"
| "push_value v (FObj d None # st) = None"

fun open_value :: "token \<Rightarrow> frame list \<Rightarrow> (mode \<times> frame list) option" where
  "open_value (TValue v) st = push_value v st"
| "open_value TLBrack st = Some (ExpValueOrEnd, FArr [] # st)"
| "open_value TLBrace st = Some (ExpKeyOrEnd, FObj [] None # st)"
| "open_value _ st = None"

fun close_array :: "frame list \<Rightarrow> (mode \<times> frame list) option" where
  "close_array (FArr es # st) = push_value (PList es) st"
| "close_array _ = None"

fun close_object :: "frame list \<Rightarrow> (mode \<times> frame list) option" where
  "close_object (FObj d None # st) = push_value (PDict d) st"
| "close_object _ = None"

fun read_key :: "token \<Rightarrow> frame list \<Rightarrow> (mode \<times> frame list) option" where
  "read_key (TValue (PStr k)) (FObj d None # st) = Some (ExpColon, FObj d (Some k) # st)"
| "read_key _ _ = None"

fun after_comma :: "frame list \<Rightarrow> (mode \<times> frame list) option" where
  "after_comma (FArr es # st) = Some (ExpValue, FArr es # st)"
| "after_comma (FObj d None # st) = Some (ExpKey, FObj d None # st)"
| "after_comma _ = None"

fun step :: "mode \<Rightarrow> frame list \<Rightarrow> token \<Rightarrow> (mode \<times> frame list) option" where
  "step (Done v) st t = None"
| "step ExpColon st t = (if t = TColon then Some (ExpValue, st) else None)"
| "step ExpValue st t = open_value t st"
| "step ExpValueOrEnd st t = (if t = TRBrack then close_array st else open_value t st)"
| "step ExpKeyOrEnd st t = (if t = TRBrace then close_object st else read_key t st)"
| "step ExpKey st t = read_key t st"
| "step ExpCommaOrEnd st t =
     (if t = TComma then after_comma st
      else if t = TRBrack then close_array st
      else if t = TRBrace then close_object st
      else None)"

fun run :: "mode \<Rightarrow> frame list \<Rightarrow> token list \<Rightarrow> (mode \<times> frame list) option" where
  "run m st [] = Some (m, st)"
| "run m st (t # ts) = (case step m st t of None \<Rightarrow> None | Some (m', st') \<Rightarrow> run m' st' ts)"

definition json_loads :: "string \<Rightarrow> pyval option" where
  "json_loads s =
     (case lex s of
        None \<Rightarrow> None
      | Some ts \<Rightarrow>
         (case run ExpValue [] ts of
            Some (Done v, st) \<Rightarrow> Some v
          | _ \<Rightarrow> None))"

section \<open>The response extractor of the service\<close>

text \<open>
  \<^verbatim>\<open>re.search(r'\{.*\}', s, re.DOTALL)\<close>: with the dot matching every character
  and the star greedy, the match runs from the first opening brace to the last closing
  brace after it; there is no match when no closing brace follows the first opening one.
\<close>

definition search_braces :: "string \<Rightarrow> string option" where
  "search_braces s =
     (let t = dropWhile (\<lambda>c. c \<noteq> CHR ''{'') s
      in if t = [] then None
         else let r = rev (dropWhile (\<lambda>c. c \<noteq> CHR ''}'') (rev (tl t)))
              in if r = [] then None else Some (CHR ''{'' # r))"

definition table_val :: "pydict list \<Rightarrow> pyval" where
  "table_val t = PList (map PDict t)"

text \<open>\<^verbatim>\<open>jsonData.get(...)\<close> on the decoded value: every value that is not a dict
  has no \<^verbatim>\<open>get\<close> and raises AttributeError.\<close>

fun extract_keys :: "pyval \<Rightarrow> pyval \<Rightarrow> py_error + (pyval \<times> pyval)" where
  "extract_keys (PDict d) fallback_data =
     (let transformed_data =
            py_or (dict_get d ''TRANSFORMED_DATA'' PNone)
              (py_or (dict_get d ''FILTERED_DATA'' PNone)
                 (py_or (dict_get d ''ANALYZED_DATA'' PNone) fallback_data));
          explanation = dict_get d ''EXPLANATION'' (PStr [])
      in Inr (explanation, transformed_data))"
| "extract_keys _ fallback_data = Inl AttributeError"

text \<open>
  \<^verbatim>\<open>LLMService._parse_llm_response\<close>. The first \<^verbatim>\<open>json.loads\<close> is inside
  \<^verbatim>\<open>try\<close>; the second one, on the matched span, is inside the handler and not
  guarded, so its JSONDecodeError leaves the function.
\<close>

definition LLMService_parse_llm_response ::
    "string \<Rightarrow> pydict list \<Rightarrow> py_error + (pyval \<times> pyval)" where
  "LLMService_parse_llm_response response_content fallback_data =
     (case json_loads response_content of
        Some jsonData \<Rightarrow> extract_keys jsonData (table_val fallback_data)
      | None \<Rightarrow>
         (case search_braces response_content of
            Some m \<Rightarrow>
              (case json_loads m of
                 Some jsonData \<Rightarrow> extract_keys jsonData (table_val fallback_data)
               | None \<Rightarrow> Inl JSONDecodeError)
          | None \<Rightarrow>
              Inr (PStr ''Could not parse LLM response as JSON.'', table_val fallback_data)))"

section \<open>The type normalizer\<close>

fun is_str :: "pyval \<Rightarrow> bool" where
  "is_str (PStr s) = True"
| "is_str _ = False"

fun is_float :: "pyval \<Rightarrow> bool" where
  "is_float (PFloat f) = True"
| "is_float _ = False"

text \<open>\<^verbatim>\<open>isinstance(v, int)\<close> holds for a \<^verbatim>\<open>bool\<close> too.\<close>

fun is_int :: "pyval \<Rightarrow> bool" where
  "is_int (PInt n) = True"
| "is_int (PBool b) = True"
| "is_int _ = False"

text \<open>\<^verbatim>\<open>int(value)\<close> on a \<^verbatim>\<open>str\<close> or a \<^verbatim>\<open>float\<close>, the two types on which
  the normalizer calls it; the other equations are never reached from there.\<close>

fun py_int :: "pyval \<Rightarrow> py_error + pyval" where
  "py_int (PStr s) = (case int_of_str s of None \<Rightarrow> Inl ValueError | Some n \<Rightarrow> Inr (PInt n))"
| "py_int (PFloat f) = (case int_of_float f of Inl e \<Rightarrow> Inl e | Inr n \<Rightarrow> Inr (PInt n))"
| "py_int (PInt n) = Inr (PInt n)"
| "py_int (PBool b) = Inr (PInt (if b then 1 else 0))"
| "py_int v = Inl ValueError"

text \<open>The body of the inner loop of \<^verbatim>\<open>_normalize_contact_signals\<close>: the new value
  of one key. \<^verbatim>\<open>str(value)\<close> of a \<^verbatim>\<open>str\<close> is the value itself.\<close>

definition normalize_value :: "string \<Rightarrow> pyval \<Rightarrow> py_error + pyval" where
  "normalize_value key value =
     (if key = ''confidence'' then
        (if is_str value \<or> is_float value then py_int value else Inr value)
      else if key = ''actionTaken'' \<or> key = ''isNew'' then
        (if is_str value \<or> is_int value then Inr (PBool (truthy value)) else Inr value)
      else if key = ''timestamp'' \<and> is_str value then Inr value
      else Inr value)"

text \<open>The inner loop over \<^verbatim>\<open>item.items()\<close>, filling \<^verbatim>\<open>normalized_item\<close>.\<close>

fun normalize_item :: "(string \<times> pyval) list \<Rightarrow> pydict \<Rightarrow> py_error + pydict" where
  "normalize_item [] normalized_item = Inr normalized_item"
| "normalize_item ((key, value) # kvs) normalized_item =
     (case normalize_value key value of
        Inl e \<Rightarrow> Inl e
      | Inr v \<Rightarrow> normalize_item kvs (dict_set normalized_item key v))"

text \<open>The outer loop over \<^verbatim>\<open>data\<close>, appending to \<^verbatim>\<open>normalized\<close>.\<close>

fun normalize_loop :: "pydict list \<Rightarrow> pydict list \<Rightarrow> py_error + pydict list" where
  "normalize_loop [] normalized = Inr normalized"
| "normalize_loop (item # data) normalized =
     (case normalize_item item [] of
        Inl e \<Rightarrow> Inl e
      | Inr normalized_item \<Rightarrow> normalize_loop data (normalized @ [normalized_item]))"

definition normalize_contact_signals :: "pydict list \<Rightarrow> py_error + pydict list" where
  "normalize_contact_signals data = normalize_loop data []"

section \<open>Classification and the pipeline\<close>

text \<open>
  What the service takes from outside: the model client (\<^verbatim>\<open>self.llm.ainvoke\<close>,
  which returns the reply text or raises), \<^verbatim>\<open>str\<close> of a table and \<^verbatim>\<open>str\<close> of
  an exception. The calls are awaited one after the other, so the model is sequential.
\<close>

datatype message = SystemMessage string | HumanMessage string

record runtime =
  ainvoke :: "message list \<Rightarrow> py_error + string"
  py_str :: "pyval \<Rightarrow> string"
  exn_str :: "py_error \<Rightarrow> string"

record settings =
  INTENT_CATEGORIES :: "string list"

definition settings :: settings where
  "settings = \<lparr>INTENT_CATEGORIES = [''data_transformation'']\<rparr>"

definition py_join :: "string \<Rightarrow> string list \<Rightarrow> string" where
  "py_join sep xs = (case xs of [] \<Rightarrow> [] | x # r \<Rightarrow> concat (x # map (\<lambda>y. sep @ y) r))"

text \<open>The system prompt of the classification, with the categories joined in.\<close>

definition classify_system_prompt :: "string list \<Rightarrow> string" where
  \<open>classify_system_prompt categories =
     ''\<newline>'' @
     ''            You are an intent classification system. Classify the user's request into one of these categories:\<newline>'' @
     ''            '' @
     py_join '', '' categories @
     ''\<newline>'' @
     ''            \<newline>'' @
     ''            Return only the category name, nothing else.\<newline>'' @
     ''            ''\<close>

text \<open>\<^verbatim>\<open>settings.INTENT_CATEGORIES[0]\<close>, which raises IndexError on an empty list.\<close>

definition first_category :: "settings \<Rightarrow> py_error + string" where
  "first_category cfg =
     (case INTENT_CATEGORIES cfg of [] \<Rightarrow> Inl IndexError | c # cs \<Rightarrow> Inr c)"

text \<open>\<^verbatim>\<open>LLMService.classify_intent\<close>; the global \<^verbatim>\<open>settings\<close> is a parameter.
  Every exception of the body is caught and answered by the first category.\<close>

definition classify_messages :: "settings \<Rightarrow> string \<Rightarrow> message list" where
  "classify_messages cfg user_prompt =
     (let system_prompt = classify_system_prompt (INTENT_CATEGORIES cfg)
      in [SystemMessage system_prompt, HumanMessage user_prompt])"

definition classify_intent :: "settings \<Rightarrow> runtime \<Rightarrow> string \<Rightarrow> py_error + string" where
  "classify_intent cfg rt user_prompt =
     (case ainvoke rt (classify_messages cfg user_prompt) of
        Inl e \<Rightarrow> first_category cfg
      | Inr content \<Rightarrow>
         (let intent = py_lower (py_strip content)
          in if intent \<notin> set (INTENT_CATEGORIES cfg) then first_category cfg
             else Inr intent))"

text \<open>The system prompt of the transformation, as it stands in the source.\<close>

definition transform_system_prompt :: string where
  \<open>transform_system_prompt =
     ''\<newline>'' @
     ''        You are a data transformation assistant. Based on the user's request, modify the provided table data.\<newline>'' @
     ''        User query will require you to create additional field(s) in order to fulfill users requests. This can be done by addition of key-value pair in each of the data object inside of the array.\<newline>'' @
     ''        \<newline>'' @
     ''        CRITICAL JSON FORMATTING RULES:\<newline>'' @
     ''        1. Return ONLY valid JSON array format\<newline>'' @
     ''        2. Do NOT add any extra text, explanations, or comments within the JSON\<newline>'' @
     ''        3. Do NOT add content after the JSON array\<newline>'' @
     ''        4. Ensure all JSON is properly formatted with correct commas and brackets\<newline>'' @
     ''        5. Every transformation must include a "reasoning" field explaining the changes\<newline>'' @
     ''        \<newline>'' @
     ''        For example, if table_data input is:\<newline>'' @
     ''        [\<newline>'' @
     ''          {\<newline>'' @
     ''            "name": "kabir"\<newline>'' @
     ''          },\<newline>'' @
     ''          {\<newline>'' @
     ''            "name": "ivan"\<newline>'' @
     ''          }\<newline>'' @
     ''        ]\<newline>'' @
     ''        \<newline>'' @
     ''        And user requests "categorize each name based on likeliest nationality", return:\<newline>'' @
     ''        [\<newline>'' @
     ''          {\<newline>'' @
     ''            "name": "kabir",\<newline>'' @
     ''            "name_nationality": "Indian",\<newline>'' @
     ''            "reasoning": "Kabir is a common name in India"\<newline>'' @
     ''          },\<newline>'' @
     ''          {\<newline>'' @
     ''            "name": "ivan",\<newline>'' @
     ''            "name_nationality": "Russian",\<newline>'' @
     ''            "reasoning": "Ivan is a common name for Russian boys"\<newline>'' @
     ''          }\<newline>'' @
     ''        ]\<newline>'' @
     ''        \<newline>'' @
     ''        Format your response EXACTLY as:\<newline>'' @
     ''        {\<newline>'' @
     ''          "TRANSFORMED_DATA": [valid JSON array only]\<newline>'' @
     ''          "EXPLANATION": [brief explanation of transformations applied]\<newline>'' @
     ''        }\<newline>'' @
     ''        ''\<close>

text \<open>\<^verbatim>\<open>LLMService._transform_data\<close>.\<close>

definition transform_messages :: "runtime \<Rightarrow> string \<Rightarrow> pydict list \<Rightarrow> message list" where
  "transform_messages rt user_prompt table_data =
     (let data_str = py_str rt (table_val table_data);
          full_prompt = ''User request: '' @ user_prompt @ ''\<newline>\<newline>Table data: '' @ data_str
      in [SystemMessage transform_system_prompt, HumanMessage full_prompt])"

definition transform_data ::
    "runtime \<Rightarrow> string \<Rightarrow> pydict list \<Rightarrow> py_error + (pyval \<times> pyval)" where
  "transform_data rt user_prompt table_data =
     (case ainvoke rt (transform_messages rt user_prompt table_data) of
        Inl e \<Rightarrow> Inl e
      | Inr content \<Rightarrow> LLMService_parse_llm_response content table_data)"

text \<open>\<^verbatim>\<open>LLMService.process_data\<close>: the transformation whatever the intent, and
  every exception answered by a message and the table that was passed in.\<close>

definition process_data ::
    "runtime \<Rightarrow> string \<Rightarrow> string \<Rightarrow> pydict list \<Rightarrow> pyval \<times> pyval" where
  "process_data rt intent user_prompt table_data =
     (case transform_data rt user_prompt table_data of
        Inr (ai_message, processed_data) \<Rightarrow> (ai_message, processed_data)
      | Inl e \<Rightarrow>
          (PStr (''I encountered an error while processing your request: '' @ exn_str rt e),
           table_val table_data))"

section \<open>The parser of the test script\<close>

text \<open>
  The loop of \<^verbatim>\<open>parse_llm_response\<close> in \<^verbatim>\<open>simple_test_parsing.py\<close> over
  \<^verbatim>\<open>enumerate(after_transformed[bracket_start:])\<close>: \<open>i\<close> is the index of the next
  character, \<open>bracket_count\<close> the running count. When the count is back at zero the
  slice up to the bracket is decoded; a slice that does not decode is logged and the
  loop goes on. \<open>None\<close> means that the loop ended without \<^verbatim>\<open>return\<close>.
\<close>

fun scan_brackets :: "string \<Rightarrow> nat \<Rightarrow> int \<Rightarrow> string \<Rightarrow> pyval option" where
  "scan_brackets text i bracket_count [] = None"
| "scan_brackets text i bracket_count (char # rest) =
     (if char = CHR ''['' then scan_brackets text (i + 1) (bracket_count + 1) rest
      else if char = CHR '']'' then
        (if bracket_count - 1 = 0 then
           (case json_loads (take (i + 1) text) of
              Some data \<Rightarrow> Some data
            | None \<Rightarrow> scan_brackets text (i + 1) (bracket_count - 1) rest)
         else scan_brackets text (i + 1) (bracket_count - 1) rest)
      else scan_brackets text (i + 1) bracket_count rest)"

definition parse_llm_response :: "string \<Rightarrow> pyval \<Rightarrow> pyval \<times> pyval" where
  "parse_llm_response response_content fallback_data =
     (let explanation =
            (if py_contains ''EXPLANATION:'' response_content
             then PStr (py_strip (last (py_split ''EXPLANATION:'' response_content)))
             else PStr ''Data processed successfully.'')
      in if py_contains ''TRANSFORMED_DATA:'' response_content then
           (let after_transformed = py_split ''TRANSFORMED_DATA:'' response_content ! 1
            in case py_find ''['' after_transformed of
                 None \<Rightarrow> (explanation, fallback_data)
               | Some bracket_start \<Rightarrow>
                  (case scan_brackets (drop bracket_start after_transformed) 0 0
                          (drop bracket_start after_transformed) of
                     Some data \<Rightarrow> (explanation, data)
                   | None \<Rightarrow> (explanation, fallback_data)))
         else (explanation, fallback_data))"

section \<open>Notions used in the statements\<close>



text \<open>
  The bracket-balanced span, in the words of the specification: from an opening
  bracket, count nested opening and closing brackets until the count returns to zero.
  The count of a text is the number of its opening brackets minus the number of its
  closing ones; a span starts with an opening bracket, its count stays positive on
  every proper prefix and is zero at its end.
\<close>

definition bracket_depth :: "string \<Rightarrow> int" where
  "bracket_depth s = int (count_list s (CHR ''['')) - int (count_list s (CHR '']''))"

definition balanced_span :: "string \<Rightarrow> bool" where
  "balanced_span a =
     (a \<noteq> [] \<and> hd a = CHR ''['' \<and> bracket_depth a = 0 \<and>
      (\<forall>n \<in> {1..<length a}. 0 < bracket_depth (take n a)))"

text \<open>A model client that gives the same answer to every request, and a rendering of
  exceptions, for the examples.\<close>

fun sample_exn_str :: "py_error \<Rightarrow> string" where
  "sample_exn_str (InvocationError m) = m"
| "sample_exn_str JSONDecodeError = ''Expecting value''"
| "sample_exn_str AttributeError = ''object has no attribute get''"
| "sample_exn_str ValueError = ''invalid literal for int()''"
| "sample_exn_str OverflowError = ''cannot convert float infinity to integer''"
| "sample_exn_str IndexError = ''list index out of range''"

definition sample_runtime :: "py_error + string \<Rightarrow> runtime" where
  "sample_runtime answer =
     \<lparr>ainvoke = (\<lambda>messages. answer), py_str = (\<lambda>v. []), exn_str = sample_exn_str\<rparr>"

section \<open>Auxiliary facts\<close>

subsection \<open>Facts about the normalizer\<close>












lemma normalize_loop_error:
  "normalize_loop data acc = Inl e \<Longrightarrow> normalize_loop data acc' = Inl e"
  by (induction data arbitrary: acc acc') (auto split: sum.splits)


subsection \<open>Facts about the script parser\<close>

lemma py_find_char: "c \<notin> set xs \<Longrightarrow> py_find [c] (xs @ c # ys) = Some (length xs)"
  by (induction xs) auto

lemma py_split_single:
  assumes "sep \<noteq> []" and "py_find sep s = Some i"
    and "py_find sep (drop (i + length sep) s) = None"
  shows "py_split sep s = [take i s, drop (i + length sep) s]"
proof -
  have "py_split sep (drop (i + length sep) s) = [drop (i + length sep) s]"
    using assms(1,3) by (subst py_split.simps) simp
  with assms(1,2) show ?thesis by (subst py_split.simps) simp
qed

lemma bracket_depth_snoc:
  "bracket_depth (p @ [c]) =
     bracket_depth p + (if c = CHR ''['' then 1 else if c = CHR '']'' then - 1 else 0)"
  by (simp add: bracket_depth_def)

lemma scan_brackets_balanced:
  assumes bal: "balanced_span arr" and dec: "json_loads arr = Some data"
  shows "p @ a = arr \<Longrightarrow> a \<noteq> [] \<Longrightarrow>
     scan_brackets (arr @ post) (length p) (bracket_depth p) (a @ post) = Some data"
proof (induction a arbitrary: p)
  case Nil
  then show ?case by simp
next
  case (Cons c a)
  let ?p' = "p @ [c]"
  have inner: "0 < bracket_depth (take n arr)" if "1 \<le> n" "n < length arr" for n
    using bal that by (auto simp: balanced_span_def)
  have arr: "?p' @ a = arr" using Cons.prems(1) by simp
  have d': "bracket_depth ?p' =
      bracket_depth p + (if c = CHR ''['' then 1 else if c = CHR '']'' then - 1 else 0)"
    by (rule bracket_depth_snoc)
  show ?case
  proof (cases "a = []")
    case True
    with arr have full: "?p' = arr" by simp
    from bal have d0: "bracket_depth arr = 0" and h: "hd arr = CHR ''[''"
      by (simp_all add: balanced_span_def)
    have pne: "p \<noteq> []"
    proof
      assume "p = []"
      with full h have "arr = [CHR ''['']" by auto
      with d0 show False by (simp add: bracket_depth_def)
    qed
    then have "1 \<le> length p" "length p < length arr" using full [symmetric] by (cases p; simp)+
    moreover have "take (length p) arr = p" using full [symmetric] by simp
    ultimately have pos: "0 < bracket_depth p" using inner [of "length p"] by simp
    from d0 d' pos full have c: "c = CHR '']''" and one: "bracket_depth p - 1 = 0"
      by (auto split: if_splits)
    have "take (length p + 1) (arr @ post) = arr" using full [symmetric] by simp
    with c one dec show ?thesis by simp
  next
    case False
    then have "1 \<le> length ?p'" "length ?p' < length arr" using arr [symmetric] by (cases a; simp)+
    moreover have "take (length ?p') arr = ?p'" using arr [symmetric] by simp
    ultimately have pos: "0 < bracket_depth ?p'" using inner [of "length ?p'"] by simp
    have IH: "scan_brackets (arr @ post) (length ?p') (bracket_depth ?p') (a @ post) = Some data"
      using Cons.IH [OF arr False] .
    show ?thesis
    proof (cases "c = CHR ''[''")
      case True
      with IH d' show ?thesis by simp
    next
      case nb: False
      show ?thesis
      proof (cases "c = CHR '']''")
        case True
        with nb d' pos have "bracket_depth p - 1 \<noteq> 0" by simp
        with True nb IH d' show ?thesis by simp
      next
        case False
        with nb IH d' show ?thesis by simp
      qed
    qed
  qed
qed





section \<open>The claims\<close>

text \<open>
  Claim C1. The response extractor is said to be total: it never raises, and in the
  worst case it returns the fixed message with the fallback table. The extractor of
  the service decodes the brace-delimited span without a handler and calls
  \<^verbatim>\<open>get\<close> on whatever was decoded. On a reply in the very format that the
  transformation prompt prescribes (the two members without a comma between them), and
  on any other brace-delimited text that is not JSON, it raises JSONDecodeError; on a
  reply that is a JSON array it raises AttributeError.
\<close>

theorem parse_llm_response_raises:
  \<open>LLMService_parse_llm_response
      ''{"TRANSFORMED_DATA": [{"name": "kabir"}] "EXPLANATION": "done"}'' fallback_data =
      Inl JSONDecodeError \<and>
    LLMService_parse_llm_response ''{not json}'' fallback_data = Inl JSONDecodeError \<and>
    LLMService_parse_llm_response ''[{"name": "kabir"}]'' fallback_data = Inl AttributeError\<close>
  by code_simp

text \<open>
  Claim C2. The array under a recognized marker, isolated by bracket balancing, is said
  to be what the extractor returns. The prompts of \<^verbatim>\<open>_filter_data\<close> and
  \<^verbatim>\<open>_analyze_data\<close> prescribe the marker format and hand the reply to the
  extractor of the service, which never looks for a marker. On a reply in that format
  with two records it takes the text from the first opening brace to the last closing
  brace, which is not JSON, and raises JSONDecodeError; on a marker followed by an array
  without braces it returns the fixed message with the fallback table; with prose around
  a one-record array it decodes the record alone and returns the fallback table with an
  empty explanation. In each case the array under the marker decodes, and the parser of
  the test script returns it for the marker \<^verbatim>\<open>TRANSFORMED_DATA:\<close>.
\<close>

theorem marker_reply_not_extracted:
  \<open>LLMService_parse_llm_response
      ''TRANSFORMED_DATA: [{"a": 1}, {"a": 2}]\<newline>EXPLANATION: x'' fallback_data =
      Inl JSONDecodeError \<and>
    json_loads ''[{"a": 1}, {"a": 2}]'' =
      Some (PList [PDict [(''a'', PInt 1)], PDict [(''a'', PInt 2)]]) \<and>
    snd (parse_llm_response ''TRANSFORMED_DATA: [{"a": 1}, {"a": 2}]\<newline>EXPLANATION: x'' PNone) =
      PList [PDict [(''a'', PInt 1)], PDict [(''a'', PInt 2)]] \<and>
    LLMService_parse_llm_response ''FILTERED_DATA: [1, 2]\<newline>EXPLANATION: x'' fallback_data =
      Inr (PStr ''Could not parse LLM response as JSON.'', table_val fallback_data) \<and>
    json_loads ''[1, 2]'' = Some (PList [PInt 1, PInt 2]) \<and>
    LLMService_parse_llm_response ''Sure. TRANSFORMED_DATA: [{"n": 1}] Done.'' [[(''n'', PInt 0)]] =
      Inr (PStr [], PList [PDict [(''n'', PInt 0)]]) \<and>
    json_loads ''[{"n": 1}]'' = Some (PList [PDict [(''n'', PInt 1)]])\<close>
  by code_simp

text \<open>
  The parser of the test script, for comparison: when the marker
  \<^verbatim>\<open>TRANSFORMED_DATA:\<close> occurs once, no opening bracket stands between it and the
  array, and the bracket-balanced span decodes, the data returned is the decoded span,
  whatever stands before the marker and after the span.
\<close>

theorem marker_span_decoded:
  assumes shape: "response_content = pre @ ''TRANSFORMED_DATA:'' @ mid @ arr @ post"
    and first: "py_find ''TRANSFORMED_DATA:'' response_content = Some (length pre)"
    and single: "\<not> py_contains ''TRANSFORMED_DATA:'' (mid @ arr @ post)"
    and mid: "CHR ''['' \<notin> set mid"
    and bal: "balanced_span arr"
    and dec: "json_loads arr = Some data"
  shows "snd (parse_llm_response response_content fallback_data) = data"
proof -
  let ?m = "''TRANSFORMED_DATA:''"
  let ?rest = "mid @ arr @ post"
  have dr: "drop (length pre + length ?m) response_content = ?rest"
    unfolding shape by simp
  have "py_split ?m response_content = [take (length pre) response_content, ?rest]"
    using py_split_single [of ?m response_content "length pre"] first single
    unfolding dr py_contains_def by simp
  then have after: "py_split ?m response_content ! 1 = ?rest"
    and after': "py_split ?m response_content ! Suc 0 = ?rest" by simp_all
  have cont: "py_contains ?m response_content" using first by (simp add: py_contains_def)
  from bal obtain arr' where arr: "arr = CHR ''['' # arr'"
    by (cases arr) (auto simp: balanced_span_def)
  have find: "py_find ''['' ?rest = Some (length mid)"
    using py_find_char [OF mid, of "arr' @ post"] by (simp add: arr)
  have "scan_brackets (arr @ post) (length ([]::string)) (bracket_depth []) (arr @ post) = Some data"
    using scan_brackets_balanced [OF bal dec, of "[]" arr post] arr by simp
  then have scan: "scan_brackets (arr @ post) 0 0 (arr @ post) = Some data"
    by (simp add: bracket_depth_def)
  show ?thesis
    unfolding parse_llm_response_def Let_def using cont by (simp add: after after' find scan)
qed

text \<open>An instance: prose before the marker and after the array, and a nested array.\<close>

theorem marker_span_decoded_witness:
  \<open>py_find ''TRANSFORMED_DATA:'' ''Sure. TRANSFORMED_DATA: [{"n": 1}, [2]] Done.'' = Some 6 \<and>
    \<not> py_contains ''TRANSFORMED_DATA:'' '' [{"n": 1}, [2]] Done.'' \<and>
    CHR ''['' \<notin> set '' '' \<and>
    balanced_span ''[{"n": 1}, [2]]'' \<and>
    json_loads ''[{"n": 1}, [2]]'' = Some (PList [PDict [(''n'', PInt 1)], PList [PInt 2]]) \<and>
    snd (parse_llm_response ''Sure. TRANSFORMED_DATA: [{"n": 1}, [2]] Done.'' PNone) =
      PList [PDict [(''n'', PInt 1)], PList [PInt 2]]\<close>
proof -
  have h0: \<open>''Sure. TRANSFORMED_DATA: [{"n": 1}, [2]] Done.'' =
      ''Sure. '' @ ''TRANSFORMED_DATA:'' @ '' '' @ ''[{"n": 1}, [2]]'' @ '' Done.''\<close>
    by simp
  have h1: \<open>py_find ''TRANSFORMED_DATA:'' ''Sure. TRANSFORMED_DATA: [{"n": 1}, [2]] Done.'' =
      Some (length ''Sure. '')\<close>
    by code_simp
  have h2: \<open>\<not> py_contains ''TRANSFORMED_DATA:'' ('' '' @ ''[{"n": 1}, [2]]'' @ '' Done.'')\<close>
    by code_simp
  have h3: \<open>CHR ''['' \<notin> set '' ''\<close>
    by simp
  have h4: \<open>balanced_span ''[{"n": 1}, [2]]''\<close>
    by code_simp
  have h5: \<open>json_loads ''[{"n": 1}, [2]]'' =
      Some (PList [PDict [(''n'', PInt 1)], PList [PInt 2]])\<close>
    by code_simp
  from marker_span_decoded [OF h0 h1 h2 h3 h4 h5, of PNone] h1 h2 h3 h4 h5
  show ?thesis by simp
qed

text \<open>
  Claim C3. Every successful request is said to pass through the type normalizer.
  \<^verbatim>\<open>process_data\<close> returns the message and the records exactly as the
  extractor produced them from the reply of the model; the normalizer is not called.
\<close>

theorem process_data_returns_extracted:
  assumes "ainvoke rt (transform_messages rt user_prompt table_data) = Inr content"
    and "LLMService_parse_llm_response content table_data = Inr (ai_message, processed_data)"
  shows "process_data rt intent user_prompt table_data = (ai_message, processed_data)"
  using assms by (simp add: process_data_def transform_data_def)

text \<open>An instance, with a reply in the documented object shape.\<close>

theorem process_data_returns_extracted_witness:
  \<open>ainvoke (sample_runtime (Inr ''{"TRANSFORMED_DATA": [{"confidence": "80"}], "EXPLANATION": "ok"}''))
      (transform_messages
        (sample_runtime (Inr ''{"TRANSFORMED_DATA": [{"confidence": "80"}], "EXPLANATION": "ok"}''))
        ''score the contacts'' []) =
      Inr ''{"TRANSFORMED_DATA": [{"confidence": "80"}], "EXPLANATION": "ok"}'' \<and>
    LLMService_parse_llm_response
      ''{"TRANSFORMED_DATA": [{"confidence": "80"}], "EXPLANATION": "ok"}'' [] =
      Inr (PStr ''ok'', PList [PDict [(''confidence'', PStr ''80'')]]) \<and>
    process_data
      (sample_runtime (Inr ''{"TRANSFORMED_DATA": [{"confidence": "80"}], "EXPLANATION": "ok"}''))
      ''data_transformation'' ''score the contacts'' [] =
      (PStr ''ok'', PList [PDict [(''confidence'', PStr ''80'')]])\<close>
proof -
  let ?reply = \<open>''{"TRANSFORMED_DATA": [{"confidence": "80"}], "EXPLANATION": "ok"}''\<close>
  have h1: "ainvoke (sample_runtime (Inr ?reply))
      (transform_messages (sample_runtime (Inr ?reply)) ''score the contacts'' []) = Inr ?reply"
    by (simp add: sample_runtime_def)
  have h2: "LLMService_parse_llm_response ?reply [] =
      Inr (PStr ''ok'', PList [PDict [(''confidence'', PStr ''80'')]])"
    by code_simp
  from process_data_returns_extracted [OF h1 h2, of "''data_transformation''"] h1 h2
  show ?thesis by simp
qed

text \<open>
  The records of that response are not the normalized ones: the string under
  \<^verbatim>\<open>confidence\<close> comes back as a string, where the normalizer would give an integer.
\<close>

theorem pipeline_skips_normalizer_counterexample:
  \<open>process_data
      (sample_runtime (Inr ''{"TRANSFORMED_DATA": [{"confidence": "80"}], "EXPLANATION": "ok"}''))
      ''data_transformation'' ''score the contacts'' [[(''confidence'', PStr ''?'')]] =
      (PStr ''ok'', table_val [[(''confidence'', PStr ''80'')]]) \<and>
    normalize_contact_signals [[(''confidence'', PStr ''80'')]] = Inr [[(''confidence'', PInt 80)]] \<and>
    table_val [[(''confidence'', PStr ''80'')]] \<noteq> table_val [[(''confidence'', PInt 80)]]\<close>
  by code_simp

text \<open>
  Claim C4. A syntactically valid array is said to be returned even when it is empty.
  The extractor chains the keys with \<^verbatim>\<open>or\<close>, which tests truth and not presence:
  the empty array under \<^verbatim>\<open>TRANSFORMED_DATA\<close> is falsy, and the fallback table is
  returned in its place.
\<close>

theorem empty_array_replaced_by_fallback:
  \<open>LLMService_parse_llm_response ''{"TRANSFORMED_DATA": [], "EXPLANATION": "no rows match"}''
      [[(''name'', PStr ''kabir'')], [(''name'', PStr ''ivan'')]] =
      Inr (PStr ''no rows match'',
           table_val [[(''name'', PStr ''kabir'')], [(''name'', PStr ''ivan'')]]) \<and>
    json_loads ''{"TRANSFORMED_DATA": [], "EXPLANATION": "no rows match"}'' =
      Some (PDict [(''TRANSFORMED_DATA'', PList []), (''EXPLANATION'', PStr ''no rows match'')])\<close>
  by code_simp

text \<open>
  Claim C5. The explanation is said never to be empty. What the extractor returns as
  explanation is the value under the key \<^verbatim>\<open>EXPLANATION\<close> of the decoded object, and
  the empty string when the object has no such key; the fixed non-empty message is
  returned only when the text neither decodes nor contains a brace-delimited span.
\<close>

theorem explanation_of_response:
  assumes "LLMService_parse_llm_response response_content fallback_data = Inr (explanation, data)"
  shows "(\<exists>d. (json_loads response_content = Some (PDict d) \<or>
               (json_loads response_content = None \<and>
                (\<exists>m. search_braces response_content = Some m \<and> json_loads m = Some (PDict d)))) \<and>
              explanation = (case map_of d ''EXPLANATION'' of Some v \<Rightarrow> v | None \<Rightarrow> PStr [])) \<or>
         (json_loads response_content = None \<and> search_braces response_content = None \<and>
          explanation = PStr ''Could not parse LLM response as JSON.'')"
proof -
  have ek: "\<exists>d. j = PDict d \<and> x = (case map_of d ''EXPLANATION'' of Some v \<Rightarrow> v | None \<Rightarrow> PStr [])"
    if "extract_keys j fb = Inr (x, y)" for j fb x y
    using that by (cases j) (auto simp: Let_def dict_get_def)
  show ?thesis
  proof (cases "json_loads response_content")
    case (Some j)
    with assms have "extract_keys j (table_val fallback_data) = Inr (explanation, data)"
      by (simp add: LLMService_parse_llm_response_def)
    from ek [OF this] Some show ?thesis by auto
  next
    case None
    show ?thesis
    proof (cases "search_braces response_content")
      case n: None
      with None assms show ?thesis by (simp add: LLMService_parse_llm_response_def)
    next
      case (Some m)
      with None assms obtain j where j: "json_loads m = Some j"
        and "extract_keys j (table_val fallback_data) = Inr (explanation, data)"
        by (auto simp: LLMService_parse_llm_response_def split: option.splits)
      from ek [OF this(2)] j None Some show ?thesis by auto
    qed
  qed
qed

text \<open>An instance: an object without the key.\<close>

theorem explanation_of_response_witness:
  \<open>LLMService_parse_llm_response ''{"TRANSFORMED_DATA": [{"n": 1}]}'' [] =
      Inr (PStr '''', PList [PDict [(''n'', PInt 1)]]) \<and>
    ((\<exists>d. (json_loads ''{"TRANSFORMED_DATA": [{"n": 1}]}'' = Some (PDict d) \<or>
           (json_loads ''{"TRANSFORMED_DATA": [{"n": 1}]}'' = None \<and>
            (\<exists>m. search_braces ''{"TRANSFORMED_DATA": [{"n": 1}]}'' = Some m \<and>
                 json_loads m = Some (PDict d)))) \<and>
          PStr '''' = (case map_of d ''EXPLANATION'' of Some v \<Rightarrow> v | None \<Rightarrow> PStr [])) \<or>
     (json_loads ''{"TRANSFORMED_DATA": [{"n": 1}]}'' = None \<and>
      search_braces ''{"TRANSFORMED_DATA": [{"n": 1}]}'' = None \<and>
      PStr '''' = PStr ''Could not parse LLM response as JSON.''))\<close>
proof -
  have h: \<open>LLMService_parse_llm_response ''{"TRANSFORMED_DATA": [{"n": 1}]}'' [] =
      Inr (PStr '''', PList [PDict [(''n'', PInt 1)]])\<close>
    by code_simp
  from explanation_of_response [OF h] h show ?thesis by blast
qed

text \<open>The explanation of a reply without the key is the empty string.\<close>

theorem empty_explanation_counterexample:
  \<open>LLMService_parse_llm_response ''{"TRANSFORMED_DATA": [{"n": 1}]}'' [] =
      Inr (PStr '''', PList [PDict [(''n'', PInt 1)]])\<close>
  by code_simp

text \<open>
  Claim C6. On any failure of the processing stage, \<^verbatim>\<open>process_data\<close> returns the
  fixed message followed by the text of the exception, together with the table that it
  was given: for every exception of the transformation, in particular one raised by the
  model client and one raised by the extractor.
\<close>

theorem process_data_failure:
  "(transform_data rt user_prompt table_data = Inl e \<longrightarrow>
      process_data rt intent user_prompt table_data =
        (PStr (''I encountered an error while processing your request: '' @ exn_str rt e),
         table_val table_data)) \<and>
   (ainvoke rt (transform_messages rt user_prompt table_data) = Inl e \<longrightarrow>
      process_data rt intent user_prompt table_data =
        (PStr (''I encountered an error while processing your request: '' @ exn_str rt e),
         table_val table_data)) \<and>
   (ainvoke rt (transform_messages rt user_prompt table_data) = Inr content \<and>
    LLMService_parse_llm_response content table_data = Inl e \<longrightarrow>
      process_data rt intent user_prompt table_data =
        (PStr (''I encountered an error while processing your request: '' @ exn_str rt e),
         table_val table_data))"
  by (simp add: process_data_def transform_data_def)

text \<open>An instance: the model client fails.\<close>

theorem process_data_failure_witness:
  "ainvoke (sample_runtime (Inl (InvocationError ''quota exceeded'')))
      (transform_messages (sample_runtime (Inl (InvocationError ''quota exceeded'')))
        ''score the contacts'' [[(''name'', PStr ''kabir'')]]) =
      Inl (InvocationError ''quota exceeded'') \<and>
   process_data (sample_runtime (Inl (InvocationError ''quota exceeded'')))
      ''data_transformation'' ''score the contacts'' [[(''name'', PStr ''kabir'')]] =
      (PStr ''I encountered an error while processing your request: quota exceeded'',
       table_val [[(''name'', PStr ''kabir'')]])"
proof -
  let ?rt = "sample_runtime (Inl (InvocationError ''quota exceeded''))"
  have h: "ainvoke ?rt (transform_messages ?rt ''score the contacts'' [[(''name'', PStr ''kabir'')]]) =
      Inl (InvocationError ''quota exceeded'')"
    by (simp add: sample_runtime_def)
  have s: "exn_str ?rt (InvocationError ''quota exceeded'') = ''quota exceeded''"
    by (simp add: sample_runtime_def)
  from process_data_failure [of ?rt "''score the contacts''" "[[(''name'', PStr ''kabir'')]]"
      "InvocationError ''quota exceeded''" "''data_transformation''"] h s
  show ?thesis by simp
qed

text \<open>
  Claim C7. With a non-empty category list, \<^verbatim>\<open>classify_intent\<close> returns normally
  and its result is a category of the list; it is the first category when the model
  client fails, when the trimmed and lowercased reply is not in the list, and when the
  reply is empty. With the configured list the result is always
  \<^verbatim>\<open>data_transformation\<close>.
\<close>

theorem classify_intent_defaults:
  "(INTENT_CATEGORIES cfg \<noteq> [] \<longrightarrow>
      (\<exists>c \<in> set (INTENT_CATEGORIES cfg). classify_intent cfg rt user_prompt = Inr c) \<and>
      (\<forall>e. ainvoke rt (classify_messages cfg user_prompt) = Inl e \<longrightarrow>
         classify_intent cfg rt user_prompt = Inr (hd (INTENT_CATEGORIES cfg))) \<and>
      (\<forall>content. ainvoke rt (classify_messages cfg user_prompt) = Inr content \<longrightarrow>
         py_lower (py_strip content) \<notin> set (INTENT_CATEGORIES cfg) \<longrightarrow>
         classify_intent cfg rt user_prompt = Inr (hd (INTENT_CATEGORIES cfg))) \<and>
      (ainvoke rt (classify_messages cfg user_prompt) = Inr [] \<longrightarrow>
         [] \<notin> set (INTENT_CATEGORIES cfg) \<longrightarrow>
         classify_intent cfg rt user_prompt = Inr (hd (INTENT_CATEGORIES cfg)))) \<and>
   classify_intent settings rt user_prompt = Inr ''data_transformation''"
proof (intro conjI impI allI)
  assume ne: "INTENT_CATEGORIES cfg \<noteq> []"
  then obtain c cs where cs: "INTENT_CATEGORIES cfg = c # cs" by (cases "INTENT_CATEGORIES cfg") auto
  then have fc: "first_category cfg = Inr c" by (simp add: first_category_def)
  show "\<exists>c \<in> set (INTENT_CATEGORIES cfg). classify_intent cfg rt user_prompt = Inr c"
    by (cases "ainvoke rt (classify_messages cfg user_prompt)")
      (auto simp: classify_intent_def Let_def fc cs)
  show "classify_intent cfg rt user_prompt = Inr (hd (INTENT_CATEGORIES cfg))"
    if "ainvoke rt (classify_messages cfg user_prompt) = Inl e" for e
    using that by (simp add: classify_intent_def fc cs)
  show "classify_intent cfg rt user_prompt = Inr (hd (INTENT_CATEGORIES cfg))"
    if "ainvoke rt (classify_messages cfg user_prompt) = Inr content"
      and "py_lower (py_strip content) \<notin> set (INTENT_CATEGORIES cfg)" for content
    using that by (simp add: classify_intent_def Let_def fc cs)
  show "classify_intent cfg rt user_prompt = Inr (hd (INTENT_CATEGORIES cfg))"
    if "ainvoke rt (classify_messages cfg user_prompt) = Inr []"
      and "[] \<notin> set (INTENT_CATEGORIES cfg)"
    using that by (simp add: classify_intent_def Let_def fc cs py_lower_def py_strip_def)
next
  show "classify_intent settings rt user_prompt = Inr ''data_transformation''"
    by (cases "ainvoke rt (classify_messages settings user_prompt)")
      (auto simp: classify_intent_def Let_def first_category_def settings_def)
qed

text \<open>An instance: a reply naming a category that is not configured.\<close>

theorem classify_intent_defaults_witness:
  "INTENT_CATEGORIES settings \<noteq> [] \<and>
   ainvoke (sample_runtime (Inr '' Data_Filtering '')) (classify_messages settings ''keep the hot leads'') =
     Inr '' Data_Filtering '' \<and>
   py_lower (py_strip '' Data_Filtering '') \<notin> set (INTENT_CATEGORIES settings) \<and>
   classify_intent settings (sample_runtime (Inr '' Data_Filtering '')) ''keep the hot leads'' =
     Inr (hd (INTENT_CATEGORIES settings)) \<and>
   hd (INTENT_CATEGORIES settings) \<in> set (INTENT_CATEGORIES settings)"
proof -
  let ?rt = "sample_runtime (Inr '' Data_Filtering '')"
  have h1: "INTENT_CATEGORIES settings \<noteq> []" by (simp add: settings_def)
  have h2: "ainvoke ?rt (classify_messages settings ''keep the hot leads'') = Inr '' Data_Filtering ''"
    by (simp add: sample_runtime_def)
  have h3: "py_lower (py_strip '' Data_Filtering '') \<notin> set (INTENT_CATEGORIES settings)"
    by code_simp
  from classify_intent_defaults [of settings ?rt "''keep the hot leads''"] h1 h2 h3
  show ?thesis by (simp add: settings_def)
qed






text \<open>
  Claim C10. The boolean coercion of \<^verbatim>\<open>actionTaken\<close> and \<^verbatim>\<open>isNew\<close> is the truth
  value of Python: a string gives True exactly when it is not empty, so the string
  \<^verbatim>\<open>false\<close> gives True, and an integer gives True exactly when it is not zero.
\<close>

theorem bool_coercion_is_truthiness:
  "normalize_value ''actionTaken'' (PStr s) = Inr (PBool (s \<noteq> [])) \<and>
   normalize_value ''isNew'' (PStr s) = Inr (PBool (s \<noteq> [])) \<and>
   normalize_value ''actionTaken'' (PInt n) = Inr (PBool (n \<noteq> 0)) \<and>
   normalize_value ''isNew'' (PInt n) = Inr (PBool (n \<noteq> 0)) \<and>
   normalize_contact_signals [[(''actionTaken'', PStr ''false''), (''isNew'', PInt 2)]] =
     Inr [[(''actionTaken'', PBool True), (''isNew'', PBool True)]]"
  by (simp add: normalize_value_def normalize_contact_signals_def)

end
